theory Spec2Isabelle
  imports Complex_Main
begin

section \<open>The Node analyze route (nodejs-server/src/api/routes/analysis.js)\<close>

text \<open>
  JavaScript numbers are modelled as reals, instants as integers. The Prisma table
  \<open>analysis\<close> is a list of rows; the id Prisma generates for a new row is the row's
  position in the table (rows are never deleted by this code), so every created row
  gets an id no other row has.
\<close>

datatype status = Pending | Processing | Completed | Failed

record scores =
  credibility :: real
  bias :: real
  factuality :: real
  overall :: real

record analysis =
  a_id :: nat
  a_videoUrl :: string
  a_userId :: "string option"
  a_status :: status
  a_progress :: nat
  a_result :: "scores option"
  a_error :: "string option"

text \<open>The JSON document the job caches: \<open>{analysisId, result}\<close>.\<close>

record cached =
  c_analysisId :: nat
  c_result :: scores

text \<open>
  The Redis server is external. A key holds a value and the instant (in seconds) at
  which it expires; \<open>GET\<close> answers nil from that instant on, \<open>SETEX\<close> overwrites the
  key and refuses a non-positive lifetime.
\<close>

type_synonym 'v redis = "string \<rightharpoonup> ('v \<times> int)"

definition redis_get :: "int \<Rightarrow> 'v redis \<Rightarrow> string \<Rightarrow> 'v option" where
  "redis_get now store key =
     (case store key of
        None \<Rightarrow> None
      | Some (v, expires_at) \<Rightarrow> if now < expires_at then Some v else None)"

definition redis_setEx :: "int \<Rightarrow> 'v redis \<Rightarrow> string \<Rightarrow> int \<Rightarrow> 'v \<Rightarrow> string + 'v redis" where
  "redis_setEx now store key seconds v =
     (if seconds \<le> 0 then Inl ''ERR invalid expire time''
      else Inr (store(key \<mapsto> (v, now + seconds))))"

record server =
  db :: "analysis list"
  redis :: "cached redis"
  timers :: "(nat \<times> string) list"

text \<open>
  What the handler reads of a request: the list \<open>validationResult(req)\<close> holds, and
  the two body fields.
\<close>

record request =
  errors :: "string list"
  req_videoUrl :: string
  req_userId :: "string option"

datatype response =
    BadRequest "string list"
  | CachedResult nat scores
  | Accepted nat
  | ServerError

text \<open>
  The awaited calls of the handler may throw; \<open>Some m\<close> is the message of the error
  thrown by that call, \<open>None\<close> lets it return.
\<close>

record req_faults =
  get_fault :: "string option"
  create_fault :: "string option"

definition cacheKey :: "string \<Rightarrow> string" where
  "cacheKey url = ''analysis:'' @ url"

definition new_analysis :: "nat \<Rightarrow> string \<Rightarrow> string option \<Rightarrow> analysis" where
  "new_analysis i url uid =
     \<lparr>a_id = i, a_videoUrl = url, a_userId = uid, a_status = Pending, a_progress = 0,
      a_result = None, a_error = None\<rparr>"

definition post_analyze :: "request \<Rightarrow> int \<Rightarrow> req_faults \<Rightarrow> server \<Rightarrow> response \<times> server" where
  "post_analyze req now flt st =
     (if errors req \<noteq> [] then (BadRequest (errors req), st)
      else case get_fault flt of
        Some e \<Rightarrow> (ServerError, st)
      | None \<Rightarrow>
          (case redis_get now (redis st) (cacheKey (req_videoUrl req)) of
             Some c \<Rightarrow> (CachedResult (c_analysisId c) (c_result c), st)
           | None \<Rightarrow>
               (case create_fault flt of
                  Some e \<Rightarrow> (ServerError, st)
                | None \<Rightarrow>
                    let a = new_analysis (length (db st)) (req_videoUrl req) (req_userId req)
                    in (Accepted (a_id a),
                        st\<lparr>db := db st @ [a],
                           timers := timers st @ [(a_id a, req_videoUrl req)]\<rparr>))))"

text \<open>
  The background job scheduled with \<open>setTimeout\<close>: \<open>timers\<close> lists the callbacks
  scheduled so far, each with the analysis id and the url it has captured, and
  \<open>run_job\<close> is the body of one of them. \<open>rnd k\<close> is the value of the \<open>k\<close>-th call of
  \<open>Math.random()\<close> the job makes, in \<open>[0, 1)\<close>.
\<close>

record job_faults =
  processing_fault :: "string option"
  completed_fault :: "string option"
  setEx_fault :: "string option"
  failed_fault :: "string option"

definition no_job_faults :: job_faults where
  "no_job_faults =
     \<lparr>processing_fault = None, completed_fault = None, setEx_fault = None,
      failed_fault = None\<rparr>"

definition prisma_update :: "analysis list \<Rightarrow> nat \<Rightarrow> (analysis \<Rightarrow> analysis) \<Rightarrow> string + analysis list" where
  "prisma_update tbl i f =
     (if i < length tbl then Inr (tbl[i := f (tbl ! i)]) else Inl ''Record to update not found.'')"

definition analysis_result :: "string \<Rightarrow> (nat \<Rightarrow> real) \<Rightarrow> scores" where
  "analysis_result url rnd =
     \<lparr>credibility = rnd 0 * 100, bias = rnd 1 * 100, factuality = rnd 2 * 100,
      overall = rnd 3 * 100\<rparr>"

text \<open>The \<open>try\<close> block: \<open>Inl m\<close> is the thrown error with the state reached so far.\<close>

definition job_try :: "nat \<times> string \<Rightarrow> int \<Rightarrow> (nat \<Rightarrow> real) \<Rightarrow> job_faults \<Rightarrow> server \<Rightarrow> (string \<times> server) + server" where
  "job_try job now rnd flt st =
     (let i = fst job; url = snd job in
      case processing_fault flt of
        Some m \<Rightarrow> Inl (m, st)
      | None \<Rightarrow>
      (case prisma_update (db st) i (\<lambda>a. a\<lparr>a_progress := 50, a_status := Processing\<rparr>) of
         Inl m \<Rightarrow> Inl (m, st)
       | Inr tbl1 \<Rightarrow>
           let st1 = st\<lparr>db := tbl1\<rparr>; r = analysis_result url rnd in
           (case completed_fault flt of
              Some m \<Rightarrow> Inl (m, st1)
            | None \<Rightarrow>
            (case prisma_update tbl1 i
                    (\<lambda>a. a\<lparr>a_progress := 100, a_status := Completed, a_result := Some r\<rparr>) of
               Inl m \<Rightarrow> Inl (m, st1)
             | Inr tbl2 \<Rightarrow>
                 let st2 = st1\<lparr>db := tbl2\<rparr> in
                 (case setEx_fault flt of
                    Some m \<Rightarrow> Inl (m, st2)
                  | None \<Rightarrow>
                  (case redis_setEx now (redis st2) (cacheKey url) 3600
                          \<lparr>c_analysisId = i, c_result = r\<rparr> of
                     Inl m \<Rightarrow> Inl (m, st2)
                   | Inr store \<Rightarrow> Inr (st2\<lparr>redis := store\<rparr>)))))))"

text \<open>
  The whole callback. An error thrown inside the \<open>catch\<close> block itself escapes the
  callback and leaves the state as the \<open>try\<close> block left it.
\<close>

definition run_job :: "nat \<times> string \<Rightarrow> int \<Rightarrow> (nat \<Rightarrow> real) \<Rightarrow> job_faults \<Rightarrow> server \<Rightarrow> server" where
  "run_job job now rnd flt st =
     (case job_try job now rnd flt st of
        Inr st' \<Rightarrow> st'
      | Inl (m, st') \<Rightarrow>
          (case failed_fault flt of
             Some m' \<Rightarrow> st'
           | None \<Rightarrow>
             (case prisma_update (db st') (fst job) (\<lambda>a. a\<lparr>a_status := Failed, a_error := Some m\<rparr>) of
                Inl m' \<Rightarrow> st'
              | Inr tbl \<Rightarrow> st'\<lparr>db := tbl\<rparr>)))"

section \<open>The extension's offline mock (chrome-extension background service)\<close>

text \<open>
  \<open>generateMockAnalysis\<close>, with \<open>rnd k\<close> the \<open>k\<close>-th draw as before. The
  \<open>explanation\<close> field, a fixed text, and the \<open>timestamp\<close>, the clock, are left out.
\<close>

record mock_analysis =
  credibility_score :: int
  bias_score :: int
  sentiment_score :: real
  content_quality :: real
  fact_check_score :: int
  source_reliability :: int
  model_version :: string

definition generateMockAnalysis :: "'video \<Rightarrow> (nat \<Rightarrow> real) \<Rightarrow> mock_analysis" where
  "generateMockAnalysis videoData rnd =
     (let baseScore = 60 + rnd 0 * 30 in
      \<lparr>credibility_score = \<lfloor>baseScore\<rfloor>,
       bias_score = \<lfloor>20 + rnd 1 * 30\<rfloor>,
       sentiment_score = 0.3 + rnd 2 * 0.4,
       content_quality = 0.5 + rnd 3 * 0.4,
       fact_check_score = \<lfloor>baseScore - 10\<rfloor>,
       source_reliability = \<lfloor>baseScore - 5\<rfloor>,
       model_version = ''mock-1.0.0''\<rparr>)"

section \<open>Sessions in flight\<close>

definition non_terminal :: "status \<Rightarrow> bool" where
  "non_terminal s = (s = Pending \<or> s = Processing)"

definition in_flight :: "server \<Rightarrow> string \<Rightarrow> analysis list" where
  "in_flight st url = filter (\<lambda>a. a_videoUrl a = url \<and> non_terminal (a_status a)) (db st)"

definition empty_server :: server where
  "empty_server = \<lparr>db = [], redis = Map.empty, timers = []\<rparr>"

definition no_req_faults :: req_faults where
  "no_req_faults = \<lparr>get_fault = None, create_fault = None\<rparr>"

definition watch_request :: "string \<Rightarrow> request" where
  "watch_request url = \<lparr>errors = [], req_videoUrl = url, req_userId = None\<rparr>"

text \<open>The \<open>status\<close> and \<open>cached\<close> fields of a response body, where it has them.\<close>

fun resp_status :: "response \<Rightarrow> status option" where
  "resp_status (CachedResult i r) = Some Completed"
| "resp_status (Accepted i) = Some Pending"
| "resp_status (BadRequest es) = None"
| "resp_status ServerError = None"

fun resp_cached :: "response \<Rightarrow> bool" where
  "resp_cached (CachedResult i r) = True"
| "resp_cached other = False"

section \<open>The Python analysis service (AnalysisService)\<close>

text \<open>
  A scorer's result is a dict, of which the service reads numeric entries by key;
  \<open>d.get(k, default)\<close> is \<open>dict_get\<close>.
\<close>

definition dict_get :: "('k \<rightharpoonup> 'v) \<Rightarrow> 'k \<Rightarrow> 'v \<Rightarrow> 'v" where
  "dict_get d k dflt = (case d k of None \<Rightarrow> dflt | Some v \<Rightarrow> v)"

text \<open>
  \<open>round(x, 2)\<close>, on reals: the nearest multiple of one hundredth. (Python rounds the
  binary float; the difference is below the precision modelled here.)
\<close>

definition round2 :: "real \<Rightarrow> real" where
  "round2 x = of_int (round (x * 100)) / 100"

definition calculate_overall_score ::
  "(string \<rightharpoonup> real) \<Rightarrow> (string \<rightharpoonup> real) \<Rightarrow> (string \<rightharpoonup> real) \<Rightarrow> real" where
  "calculate_overall_score sentiment_result bias_result credibility_result =
     (let sentiment_score = dict_get sentiment_result ''sentiment_score'' 50;
          bias_score = 100 - dict_get bias_result ''bias_score'' 50;
          credibility_score = dict_get credibility_result ''credibility_score'' 50;
          overall_score = sentiment_score * 0.2 + bias_score * 0.4 + credibility_score * 0.4
      in round2 overall_score)"

text \<open>
  For comparison, the aggregate in the specification's words: the weighted sum over the
  stages present, with the weights of those stages scaled to sum to 1. The weights are
  the ones of \<open>calculate_overall_score\<close>.
\<close>

fun stage_weight :: "string \<Rightarrow> real" where
  "stage_weight name =
     (if name = ''sentiment'' then 0.2
      else if name = ''bias'' then 0.4
      else if name = ''credibility'' then 0.4
      else 0)"

definition renormalized_score :: "(string \<times> real) list \<Rightarrow> real" where
  "renormalized_score stage_scores =
     (\<Sum>(name, score) \<leftarrow> stage_scores. stage_weight name * score)
       / (\<Sum>(name, score) \<leftarrow> stage_scores. stage_weight name)"

text \<open>
  \<open>analyze_video_realtime\<close> is an async generator. The model returns the events it
  yields, in order, and the error that ended it, if one of the awaited services raised.
  An event \<open>{"step": s, "progress": p}\<close> is the pair \<open>(s, p)\<close>.
\<close>

record ('s, 'b, 'c) services =
  get_video_data :: "string \<Rightarrow> string + (string \<rightharpoonup> string)"
  analyze_sentiment :: "string \<Rightarrow> string + 's"
  analyze_bias :: "string \<Rightarrow> string + 'b"
  analyze_credibility :: "string \<Rightarrow> string + 'c"

definition analyze_video_realtime ::
  "('s, 'b, 'c) services \<Rightarrow> string \<Rightarrow> (string \<times> nat) list \<times> string option" where
  "analyze_video_realtime svc video_id =
     (let ev1 = [(''started'', 0), (''collecting_data'', 20)] in
      case get_video_data svc video_id of
        Inl e \<Rightarrow> (ev1, Some e)
      | Inr video_data \<Rightarrow>
          let transcript = dict_get video_data ''transcript'' '''';
              ev2 = ev1 @ [(''sentiment_analysis'', 40)] in
          (case analyze_sentiment svc transcript of
             Inl e \<Rightarrow> (ev2, Some e)
           | Inr sentiment_result \<Rightarrow>
               let ev3 = ev2 @ [(''bias_detection'', 60)] in
               (case analyze_bias svc transcript of
                  Inl e \<Rightarrow> (ev3, Some e)
                | Inr bias_result \<Rightarrow>
                    let ev4 = ev3 @ [(''credibility_analysis'', 80)] in
                    (case analyze_credibility svc transcript of
                       Inl e \<Rightarrow> (ev4, Some e)
                     | Inr credibility_result \<Rightarrow> (ev4 @ [(''completed'', 100)], None)))))"

text \<open>The events between \<open>started\<close> and \<open>completed\<close>: one per stage.\<close>

definition stage_progress :: "(string \<times> nat) list \<Rightarrow> (string \<times> nat) list" where
  "stage_progress evs = filter (\<lambda>ev. fst ev \<noteq> ''started'' \<and> fst ev \<noteq> ''completed'') evs"

definition working_services :: "(unit, unit, unit) services" where
  "working_services =
     \<lparr>get_video_data = (\<lambda>v. Inr [''transcript'' \<mapsto> ''hello'']),
      analyze_sentiment = (\<lambda>t. Inr ()), analyze_bias = (\<lambda>t. Inr ()),
      analyze_credibility = (\<lambda>t. Inr ())\<rparr>"

section \<open>JavaScript values and JSON\<close>

text \<open>
  The values a result is made of. \<open>JNaN\<close> stands for the numbers JSON cannot write,
  NaN and the two infinities. A JSON text is identified with the document it denotes,
  a \<open>json\<close>: \<open>JSON.stringify\<close> writes the document of a value, with \<open>null\<close> for
  \<open>JNaN\<close>, and \<open>JSON.parse\<close> reads a document back as a value.
\<close>

datatype js_value =
    JNull
  | JBool bool
  | JNum real
  | JNaN
  | JStr string
  | JArr "js_value list"
  | JObj "(string \<times> js_value) list"

datatype json =
    TNull
  | TBool bool
  | TNum real
  | TStr string
  | TArr "json list"
  | TObj "(string \<times> json) list"

primrec JSON_stringify :: "js_value \<Rightarrow> json" where
  "JSON_stringify JNull = TNull"
| "JSON_stringify (JBool b) = TBool b"
| "JSON_stringify (JNum x) = TNum x"
| "JSON_stringify JNaN = TNull"
| "JSON_stringify (JStr s) = TStr s"
| "JSON_stringify (JArr vs) = TArr (map JSON_stringify vs)"
| "JSON_stringify (JObj fs) = TObj (map (map_prod id JSON_stringify) fs)"

primrec JSON_parse :: "json \<Rightarrow> js_value" where
  "JSON_parse TNull = JNull"
| "JSON_parse (TBool b) = JBool b"
| "JSON_parse (TNum x) = JNum x"
| "JSON_parse (TStr s) = JStr s"
| "JSON_parse (TArr ts) = JArr (map JSON_parse ts)"
| "JSON_parse (TObj fs) = JObj (map (map_prod id JSON_parse) fs)"

text \<open>The values JSON can represent: those with no \<open>JNaN\<close> inside.\<close>

primrec jsonable :: "js_value \<Rightarrow> bool" where
  "jsonable JNull = True"
| "jsonable (JBool b) = True"
| "jsonable (JNum x) = True"
| "jsonable JNaN = False"
| "jsonable (JStr s) = True"
| "jsonable (JArr vs) = list_all id (map jsonable vs)"
| "jsonable (JObj fs) = list_all snd (map (map_prod id jsonable) fs)"

text \<open>What \<open>if (v)\<close> tests.\<close>

fun js_truthy :: "js_value \<Rightarrow> bool" where
  "js_truthy JNull = False"
| "js_truthy (JBool b) = b"
| "js_truthy (JNum x) = (x \<noteq> 0)"
| "js_truthy JNaN = False"
| "js_truthy (JStr s) = (s \<noteq> [])"
| "js_truthy (JArr vs) = True"
| "js_truthy (JObj fs) = True"

section \<open>Caches\<close>

text \<open>
  \<open>RedisService.set\<close> stores \<open>JSON.stringify(value)\<close> with \<open>EX expireSeconds\<close> and
  answers true, or false when the command fails; \<open>RedisService.get\<close> answers
  \<open>JSON.parse\<close> of the stored text, or \<open>null\<close> when there is none or the command
  fails. \<open>fault\<close> is the error of a broken connection, which both methods catch.
  \<open>expireSeconds\<close> is optional and defaults to 3600.
\<close>

definition RedisService_set ::
  "string option \<Rightarrow> int \<Rightarrow> json redis \<Rightarrow> string \<Rightarrow> js_value \<Rightarrow> int option \<Rightarrow> bool \<times> json redis" where
  "RedisService_set fault now store key v expireSeconds =
     (case fault of
        Some e \<Rightarrow> (False, store)
      | None \<Rightarrow>
          (case redis_setEx now store key (case expireSeconds of None \<Rightarrow> 3600 | Some s \<Rightarrow> s)
                  (JSON_stringify v) of
             Inl e \<Rightarrow> (False, store)
           | Inr store' \<Rightarrow> (True, store')))"

definition RedisService_get :: "string option \<Rightarrow> int \<Rightarrow> json redis \<Rightarrow> string \<Rightarrow> js_value" where
  "RedisService_get fault now store key =
     (case fault of
        Some e \<Rightarrow> JNull
      | None \<Rightarrow>
          (case redis_get now store key of
             None \<Rightarrow> JNull
           | Some text \<Rightarrow> JSON_parse text))"

text \<open>
  The extension keeps \<open>analysisCache\<close>, a Map from video id to the result and the
  instant (milliseconds) it was stored. \<open>cached_analysis\<close> is the check at the head
  of \<open>analyzeVideo\<close>: \<open>Some r\<close> is the early return of the cached result.
\<close>

record 'r cache_entry =
  result :: 'r
  timestamp :: int

definition cached_analysis :: "int \<Rightarrow> (string \<rightharpoonup> 'r cache_entry) \<Rightarrow> string \<Rightarrow> 'r option" where
  "cached_analysis now analysisCache videoId =
     (case analysisCache videoId of
        None \<Rightarrow> None
      | Some cached \<Rightarrow>
          if now - timestamp cached < 24 * 60 * 60 * 1000 then Some (result cached) else None)"

text \<open>
  What \<open>analyzeVideo\<close> does beyond its cache goes to the world outside, of state
  \<open>'w\<close>: the analysis request to the Python server, which may throw, and the saving of
  the result to the Node server, which catches its own errors.
\<close>

record ('w, 'vd, 'r) extension =
  requestVideoAnalysis :: "string \<Rightarrow> 'vd \<Rightarrow> 'w \<Rightarrow> (string + 'r) \<times> 'w"
  saveAnalysisResult :: "string \<Rightarrow> 'r \<Rightarrow> 'w \<Rightarrow> 'w"

text \<open>
  The outcome of \<open>analyzeVideo\<close>: what it returns or throws, the cache and the world
  it leaves, and the analysis-complete notifications it has shown, each for a video id
  and a result.
\<close>

record ('w, 'r) analyzed =
  returned :: "string + 'r"
  cache_after :: "string \<rightharpoonup> 'r cache_entry"
  world_after :: 'w
  notifications :: "(string \<times> 'r) list"

text \<open>
  \<open>now\<close> is the clock at the check, \<open>now'\<close> the clock when the fresh result is
  stored.
\<close>

definition analyzeVideo ::
  "('w, 'vd, 'r) extension \<Rightarrow> int \<Rightarrow> int \<Rightarrow> string \<Rightarrow> 'vd \<Rightarrow> (string \<rightharpoonup> 'r cache_entry) \<Rightarrow> 'w
     \<Rightarrow> ('w, 'r) analyzed" where
  "analyzeVideo ext now now' videoId videoData analysisCache w =
     (case cached_analysis now analysisCache videoId of
        Some r \<Rightarrow>
          \<lparr>returned = Inr r, cache_after = analysisCache, world_after = w, notifications = []\<rparr>
      | None \<Rightarrow>
          (case requestVideoAnalysis ext videoId videoData w of
             (Inl e, w1) \<Rightarrow>
               \<lparr>returned = Inl e, cache_after = analysisCache, world_after = w1,
                notifications = []\<rparr>
           | (Inr analysisResult, w1) \<Rightarrow>
               \<lparr>returned = Inr analysisResult,
                cache_after = analysisCache(videoId \<mapsto> \<lparr>result = analysisResult, timestamp = now'\<rparr>),
                world_after = saveAnalysisResult ext videoId analysisResult w1,
                notifications = [(videoId, analysisResult)]\<rparr>))"

text \<open>A server that counts the analysis requests it receives and answers 72.\<close>

definition counting_extension :: "(nat, unit, nat) extension" where
  "counting_extension =
     \<lparr>requestVideoAnalysis = (\<lambda>v d w. (Inr 72, Suc w)), saveAnalysisResult = (\<lambda>v r w. w)\<rparr>"

section \<open>The Node WebSocket handler and the batch route\<close>

text \<open>
  The services a handler awaits are stateful from its point of view: a call reads the
  state \<open>'w\<close> of the world outside (which attempt this is, what the network does)
  and leaves a new one; \<open>Inl m\<close> is the message of the error the call throws.
\<close>

record ('w, 'vd, 'r) backend =
  yt_getVideoData :: "string option \<Rightarrow> 'w \<Rightarrow> (string + 'vd) \<times> 'w"
  svc_analyzeVideo :: "'vd \<Rightarrow> 'w \<Rightarrow> (string + 'r) \<times> 'w"
  cs_get :: "string \<Rightarrow> 'w \<Rightarrow> (string + 'r option) \<times> 'w"
  cs_set :: "string \<Rightarrow> 'r \<Rightarrow> int \<Rightarrow> 'w \<Rightarrow> (string + unit) \<times> 'w"

text \<open>
  A field of a JSON message is a string or missing. \<open>a || b\<close> is \<open>js_or\<close>, and
  \<open>js_str\<close> is how a template literal prints the value.
\<close>

definition truthy :: "string option \<Rightarrow> bool" where
  "truthy v = (case v of None \<Rightarrow> False | Some s \<Rightarrow> s \<noteq> [])"

definition js_or :: "string option \<Rightarrow> string option \<Rightarrow> string option" where
  "js_or a b = (if truthy a then a else b)"

definition js_str :: "string option \<Rightarrow> string" where
  "js_str v = (case v of None \<Rightarrow> ''undefined'' | Some s \<Rightarrow> s)"

datatype 'r ws_message =
    WsError string
  | AnalysisStarted "string option" "string option"
  | AnalysisCompleted 'r

text \<open>\<open>handleAnalysisRequest\<close>: the messages sent on the socket, in order.\<close>

definition handleAnalysisRequest ::
  "('w, 'vd, 'r) backend \<Rightarrow> string option \<Rightarrow> string option \<Rightarrow> 'w \<Rightarrow> 'r ws_message list \<times> 'w" where
  "handleAnalysisRequest be videoUrl videoId w =
     (if \<not> truthy videoUrl \<and> \<not> truthy videoId
      then ([WsError ''videoUrl or videoId is required''], w)
      else
        (case yt_getVideoData be (js_or videoUrl videoId) w of
           (Inl e, w1) \<Rightarrow> ([AnalysisStarted videoUrl videoId, WsError e], w1)
         | (Inr videoData, w1) \<Rightarrow>
             (case svc_analyzeVideo be videoData w1 of
                (Inl e, w2) \<Rightarrow> ([AnalysisStarted videoUrl videoId, WsError e], w2)
              | (Inr analysisResult, w2) \<Rightarrow>
                  ([AnalysisStarted videoUrl videoId, AnalysisCompleted analysisResult], w2))))"

text \<open>A scorer that times out on its first invocation and answers from the second on.\<close>

definition flaky_backend :: "(nat, unit, nat) backend" where
  "flaky_backend =
     \<lparr>yt_getVideoData = (\<lambda>u w. (Inr (), w)),
      svc_analyzeVideo = (\<lambda>vd w. (if w = 0 then Inl ''scorer timed out'' else Inr 72, Suc w)),
      cs_get = (\<lambda>k w. (Inr None, w)),
      cs_set = (\<lambda>k r s w. (Inr (), w))\<rparr>"

text \<open>
  \<open>POST /batch\<close>. An item of the body's \<open>videos\<close> array is an object, of which the
  loop reads \<open>videoUrl\<close> and \<open>videoId\<close>, or it is \<open>null\<close> (\<open>None\<close>). An entry
  of the \<open>data\<close> array is \<open>{videoId, status: 'completed', result, cached}\<close> or
  \<open>{videoId, status: 'failed', error}\<close>.
\<close>

record video =
  v_videoUrl :: "string option"
  v_videoId :: "string option"

datatype 'r batch_entry =
    EntryCompleted "string option" 'r bool
  | EntryFailed "string option" string

fun entry_videoId :: "'r batch_entry \<Rightarrow> string option" where
  "entry_videoId (EntryCompleted i r c) = i"
| "entry_videoId (EntryFailed i e) = i"


text \<open>
  The body of the \<open>for\<close> loop, with its own \<open>try\<close>/\<open>catch\<close>. \<open>Inr\<close> is the entry
  pushed to \<open>results\<close>. On a \<open>null\<close> item the destructuring throws, and the
  \<open>catch\<close> block, which reads \<open>video.videoId\<close>, throws in turn: that error leaves
  the loop (\<open>Inl\<close>). A cached value counts as a hit when \<open>if (cachedResult)\<close> passes.
\<close>

definition batch_one ::
  "('w, 'vd, js_value) backend \<Rightarrow> video option \<Rightarrow> 'w \<Rightarrow> (string \<times> 'w) + (js_value batch_entry \<times> 'w)" where
  "batch_one be item w =
     (case item of
        None \<Rightarrow> Inl (''Cannot read properties of null'', w)
      | Some video \<Rightarrow>
          Inr
           (let videoUrl = v_videoUrl video; videoId = v_videoId video;
                key = ''analysis:'' @ js_str (js_or videoId videoUrl);
                failed = EntryFailed (js_or (v_videoId video) (v_videoUrl video)) in
            case cs_get be key w of
              (Inl e, w1) \<Rightarrow> (failed e, w1)
            | (Inr cachedResult, w1) \<Rightarrow>
                (case (case cachedResult of
                         None \<Rightarrow> None
                       | Some c \<Rightarrow> if js_truthy c then Some c else None) of
                   Some c \<Rightarrow> (EntryCompleted (js_or videoId videoUrl) c True, w1)
                 | None \<Rightarrow>
                     (case yt_getVideoData be (js_or videoUrl videoId) w1 of
                        (Inl e, w2) \<Rightarrow> (failed e, w2)
                      | (Inr videoData, w2) \<Rightarrow>
                          (case svc_analyzeVideo be videoData w2 of
                             (Inl e, w3) \<Rightarrow> (failed e, w3)
                           | (Inr analysisResult, w3) \<Rightarrow>
                               (case cs_set be key analysisResult 3600 w3 of
                                  (Inl e, w4) \<Rightarrow> (failed e, w4)
                                | (Inr u, w4) \<Rightarrow>
                                    (EntryCompleted (js_or videoId videoUrl) analysisResult False,
                                     w4)))))))"

fun batch_loop ::
  "('w, 'vd, js_value) backend \<Rightarrow> video option list \<Rightarrow> 'w
     \<Rightarrow> (string \<times> 'w) + (js_value batch_entry list \<times> 'w)" where
  "batch_loop be [] w = Inr ([], w)"
| "batch_loop be (item # items) w =
     (case batch_one be item w of
        Inl err \<Rightarrow> Inl err
      | Inr (entry, w1) \<Rightarrow>
          (case batch_loop be items w1 of
             Inl err \<Rightarrow> Inl err
           | Inr (results, w2) \<Rightarrow> Inr (entry # results, w2)))"

text \<open>
  The response: status 400 with \<open>error\<close> and \<open>message\<close>, status 200 with \<open>success\<close>
  and \<open>data\<close>, or, when an error leaves the loop and goes to \<open>next(error)\<close>, the
  error handler's status 500 with the error's message. \<open>None\<close> for the body's
  \<open>videos\<close> is a value that is not an array.
\<close>

datatype 'r batch_response =
    Batch400 string string
  | Batch200 bool "'r batch_entry list"
  | Batch500 string

definition batch_post ::
  "('w, 'vd, js_value) backend \<Rightarrow> video option list option \<Rightarrow> 'w \<Rightarrow> js_value batch_response \<times> 'w" where
  "batch_post be videos w =
     (case videos of
        None \<Rightarrow> (Batch400 ''Invalid request'' ''videos array is required'', w)
      | Some vs \<Rightarrow>
          if length vs = 0 then (Batch400 ''Invalid request'' ''videos array is required'', w)
          else if length vs > 10
          then (Batch400 ''Too many videos'' ''Maximum 10 videos allowed per batch'', w)
          else (case batch_loop be vs w of
                  Inl (m, w') \<Rightarrow> (Batch500 m, w')
                | Inr (results, w') \<Rightarrow> (Batch200 True results, w')))"



definition all_work :: "(unit, string, js_value) backend" where
  "all_work =
     \<lparr>yt_getVideoData = (\<lambda>u w. (Inr (js_str u), w)),
      svc_analyzeVideo = (\<lambda>vd w. (Inr (JNum 72), w)),
      cs_get = (\<lambda>k w. (Inr None, w)),
      cs_set = (\<lambda>k r s w. (Inr (), w))\<rparr>"

definition video_of :: "string \<Rightarrow> video" where
  "video_of i = \<lparr>v_videoUrl = None, v_videoId = Some i\<rparr>"


section \<open>The Python batch service (BatchAnalysisService.process_videos)\<close>

text \<open>
  Every url is submitted to the pool; \<open>as_completed\<close> hands the tasks back in the
  order they finish, given here as the list \<open>order\<close> of task indices (a permutation of
  the indices of \<open>urls\<close>). \<open>task.result()\<close> re-raises the exception of a failed task,
  which ends the list comprehension and the call.
\<close>

fun task_results :: "(string + 'r) list \<Rightarrow> string + 'r list" where
  "task_results [] = Inr []"
| "task_results (Inl e # tasks) = Inl e"
| "task_results (Inr r # tasks) =
     (case task_results tasks of Inl e \<Rightarrow> Inl e | Inr rs \<Rightarrow> Inr (r # rs))"

definition process_videos :: "(string \<Rightarrow> string + 'r) \<Rightarrow> nat list \<Rightarrow> string list \<Rightarrow> string + 'r list" where
  "process_videos analyze_single_video order urls =
     (let tasks = map analyze_single_video urls
      in task_results (map (\<lambda>i. tasks ! i) order))"

section \<open>Socket.IO progress rooms (setupSocketIO, emitAnalysisProgress, emitAnalysisComplete)\<close>

text \<open>
  The payloads of the two events, without their timestamps. A socket is known by a
  number; \<open>rooms\<close> gives the sockets that joined a room and \<open>delivered\<close> what each
  socket has been sent so far, oldest first.
\<close>

datatype 'r socket_event =
    AnalysisProgress string nat string string
  | AnalysisComplete string 'r

fun event_analysisId :: "'r socket_event \<Rightarrow> string" where
  "event_analysisId (AnalysisProgress analysisId p s m) = analysisId"
| "event_analysisId (AnalysisComplete analysisId r) = analysisId"

record 'r io_server =
  rooms :: "string \<Rightarrow> nat set"
  delivered :: "nat \<Rightarrow> 'r socket_event list"

definition room :: "string \<Rightarrow> string" where
  "room analysisId = ''analysis_'' @ analysisId"

text \<open>The handlers of \<open>subscribe_analysis\<close> and \<open>unsubscribe_analysis\<close>.\<close>

definition subscribe_analysis :: "nat \<Rightarrow> string \<Rightarrow> 'r io_server \<Rightarrow> 'r io_server" where
  "subscribe_analysis socket analysisId srv =
     srv\<lparr>rooms := (rooms srv)(room analysisId := insert socket (rooms srv (room analysisId)))\<rparr>"

definition unsubscribe_analysis :: "nat \<Rightarrow> string \<Rightarrow> 'r io_server \<Rightarrow> 'r io_server" where
  "unsubscribe_analysis socket analysisId srv =
     srv\<lparr>rooms := (rooms srv)(room analysisId := rooms srv (room analysisId) - {socket})\<rparr>"

text \<open>\<open>io.to(r).emit(...)\<close>: every socket in the room is sent the event.\<close>

definition io_to_emit :: "string \<Rightarrow> 'r socket_event \<Rightarrow> 'r io_server \<Rightarrow> 'r io_server" where
  "io_to_emit r ev srv =
     srv\<lparr>delivered := (\<lambda>socket. if socket \<in> rooms srv r then delivered srv socket @ [ev]
                                 else delivered srv socket)\<rparr>"

text \<open>The module variable \<open>io\<close> is unset (\<open>None\<close>) until \<open>setupSocketIO\<close> has run.\<close>

definition emitAnalysisProgress ::
  "string \<Rightarrow> nat \<Rightarrow> string \<Rightarrow> string \<Rightarrow> 'r io_server option \<Rightarrow> 'r io_server option" where
  "emitAnalysisProgress analysisId p status message io =
     (case io of
        None \<Rightarrow> None
      | Some srv \<Rightarrow>
          Some (io_to_emit (room analysisId) (AnalysisProgress analysisId p status message) srv))"

definition emitAnalysisComplete :: "string \<Rightarrow> 'r \<Rightarrow> 'r io_server option \<Rightarrow> 'r io_server option" where
  "emitAnalysisComplete analysisId r io =
     (case io of
        None \<Rightarrow> None
      | Some srv \<Rightarrow> Some (io_to_emit (room analysisId) (AnalysisComplete analysisId r) srv))"

text \<open>A run of emissions, in the order the calls are made.\<close>

fun emit :: "'r socket_event \<Rightarrow> 'r io_server option \<Rightarrow> 'r io_server option" where
  "emit (AnalysisProgress analysisId p status message) io =
     emitAnalysisProgress analysisId p status message io"
| "emit (AnalysisComplete analysisId r) io = emitAnalysisComplete analysisId r io"

fun emit_all :: "'r socket_event list \<Rightarrow> 'r io_server option \<Rightarrow> 'r io_server option" where
  "emit_all [] io = io"
| "emit_all (ev # evs) io = emit_all evs (emit ev io)"

definition no_subscribers :: "nat io_server" where
  "no_subscribers = \<lparr>rooms = (\<lambda>r. {}), delivered = (\<lambda>socket. [])\<rparr>"

section \<open>The Node process: the analyze route and the Socket.IO server\<close>

text \<open>
  The state of the whole process is the state the analyze route works on together with
  the Socket.IO server. The handler of the route makes no call to
  \<open>emitAnalysisProgress\<close> or \<open>emitAnalysisComplete\<close> (neither has a call site in the
  sources), so it leaves the Socket.IO server as it found it.
\<close>

definition analyze_route ::
  "request \<Rightarrow> int \<Rightarrow> req_faults \<Rightarrow> server \<times> scores io_server option
     \<Rightarrow> response \<times> server \<times> scores io_server option" where
  "analyze_route req now flt process =
     (case post_analyze req now flt (fst process) of
        (resp, st') \<Rightarrow> (resp, st', snd process))"

text \<open>
  A Socket.IO server on which socket 7 has joined every room and has been sent nothing, and
  a route state whose cache holds a result for one video until instant 3600.
\<close>

definition listening_everywhere :: "scores io_server" where
  "listening_everywhere = \<lparr>rooms = (\<lambda>r. {7}), delivered = (\<lambda>socket. [])\<rparr>"

definition cached_server :: server where
  "cached_server =
     \<lparr>db = [],
      redis = [cacheKey ''https://youtu.be/a'' \<mapsto>
         (\<lparr>c_analysisId = 3,
           c_result = \<lparr>credibility = 10, bias = 20, factuality = 30, overall = 40\<rparr>\<rparr>, 3600)],
      timers = []\<rparr>"

section \<open>Session cancellation\<close>

text \<open>
  Modelled from the spec: the session states of the Session Manager. No source has a
  session with a Cancelled state; \<open>handle_cancel_analysis\<close>, which \<open>websocket_endpoint\<close>
  calls on a \<open>cancel_analysis\<close> message, is not among the sources.
\<close>

datatype session_state = SPending | SRunning | SCompleted | SFailed | SCancelled

text \<open>
  Modelled from the spec: Pending and Running are non-terminal, the other three states
  are terminal (section 4.2).
\<close>

definition terminal :: "session_state \<Rightarrow> bool" where
  "terminal s = (s = SCompleted \<or> s = SFailed \<or> s = SCancelled)"

datatype session_error = NotFound

text \<open>
  Modelled from the spec: \<open>cancel(session_id) -> bool\<close> of section 4.1, the missing
  \<open>handle_cancel_analysis\<close>. It moves a Pending or Running session to Cancelled and
  returns true, returns false on a terminal session, and fails with NotFound on an
  unknown id (section 7).
\<close>

definition cancel :: "nat \<Rightarrow> (nat \<rightharpoonup> session_state) \<Rightarrow> (session_error + bool) \<times> (nat \<rightharpoonup> session_state)" where
  "cancel session_id sessions =
     (case sessions session_id of
        None \<Rightarrow> (Inl NotFound, sessions)
      | Some s \<Rightarrow>
          if terminal s then (Inr False, sessions)
          else (Inr True, sessions(session_id \<mapsto> SCancelled)))"

text \<open>
  Modelled from the spec: the transitions of one session (section 4.2): pickup by an
  execution slot, the three ways a running session ends, and the cancellation of a
  session not yet picked up.
\<close>

inductive transition :: "session_state \<Rightarrow> session_state \<Rightarrow> bool" where
  pickup: "transition SPending SRunning"
| complete: "transition SRunning SCompleted"
| fail: "transition SRunning SFailed"
| cancel_running: "transition SRunning SCancelled"
| cancel_pending: "transition SPending SCancelled"

code_pred transition .

text \<open>
  Modelled from the spec: a step of the Session Manager. A session takes one of its
  transitions, or a session is created, in Pending, under an id not in use (ids are
  unique tokens; a session is never removed from the map).
\<close>

inductive manager_step :: "(nat \<rightharpoonup> session_state) \<Rightarrow> (nat \<rightharpoonup> session_state) \<Rightarrow> bool" where
  advance: "sessions i = Some s \<Longrightarrow> transition s s' \<Longrightarrow> manager_step sessions (sessions(i \<mapsto> s'))"
| create: "sessions i = None \<Longrightarrow> manager_step sessions (sessions(i \<mapsto> SPending))"

section \<open>Theorems\<close>

subsection \<open>The background job\<close>

lemma job_try_no_faults:
  assumes "i < length (db st)"
  shows "job_try (i, url) now rnd no_job_faults st =
           Inr (st\<lparr>db := (db st)[i := (db st ! i)\<lparr>a_progress := 100, a_status := Completed,
                                   a_result := Some (analysis_result url rnd)\<rparr>],
                   redis := (redis st)(cacheKey url \<mapsto>
                      (\<lparr>c_analysisId = i, c_result = analysis_result url rnd\<rparr>, now + 3600))\<rparr>)"
  using assms
  by (simp add: job_try_def no_job_faults_def prisma_update_def redis_setEx_def Let_def)

lemma run_job_no_faults:
  assumes "i < length (db st)"
  shows "run_job (i, url) now rnd no_job_faults st =
           st\<lparr>db := (db st)[i := (db st ! i)\<lparr>a_progress := 100, a_status := Completed,
                                   a_result := Some (analysis_result url rnd)\<rparr>],
              redis := (redis st)(cacheKey url \<mapsto>
                      (\<lparr>c_analysisId = i, c_result = analysis_result url rnd\<rparr>, now + 3600))\<rparr>"
  by (simp add: run_job_def job_try_no_faults [OF assms])

lemma post_analyze_miss:
  assumes "errors req = []" and "get_fault flt = None" and "create_fault flt = None"
    and "redis_get now (redis st) (cacheKey (req_videoUrl req)) = None"
  shows "post_analyze req now flt st =
           (Accepted (length (db st)),
            st\<lparr>db := db st @ [new_analysis (length (db st)) (req_videoUrl req) (req_userId req)],
               timers := timers st @ [(length (db st), req_videoUrl req)]\<rparr>)"
  using assms by (simp add: post_analyze_def Let_def new_analysis_def)

subsection \<open>Scores and the analysed video\<close>

text \<open>
  C10. The scores the Node job commits (to the table row and to the cache) and the scores
  of the extension's offline mock are determined by the random draws alone: two jobs, or
  two mock analyses, for any two videos give the same scores under the same draws. In the
  other direction, the Node scores are equal only if the four draws are, and mock analyses
  of one video differ for some pair of draws.
\<close>

theorem scores_depend_on_draws_only:
  assumes "i1 < length (db st1)" and "i2 < length (db st2)"
  shows "a_result (db (run_job (i1, url1) t1 rnd no_job_faults st1) ! i1)
           = a_result (db (run_job (i2, url2) t2 rnd no_job_faults st2) ! i2)
       \<and> a_result (db (run_job (i1, url1) t1 rnd no_job_faults st1) ! i1)
           = Some (analysis_result url1 rnd)
       \<and> map_option c_result (redis_get t1 (redis (run_job (i1, url1) t1 rnd no_job_faults st1)) (cacheKey url1))
           = map_option c_result (redis_get t2 (redis (run_job (i2, url2) t2 rnd no_job_faults st2)) (cacheKey url2))
       \<and> generateMockAnalysis video1 rnd = generateMockAnalysis video2 rnd
       \<and> (analysis_result url1 rnd = analysis_result url1 rnd' \<longleftrightarrow> (\<forall>k<4. rnd k = rnd' k))
       \<and> (\<exists>r r'. generateMockAnalysis video1 r \<noteq> generateMockAnalysis video1 r')"
proof -
  have inj: "analysis_result url1 rnd = analysis_result url1 rnd' \<longleftrightarrow> (\<forall>k<4. rnd k = rnd' k)"
  proof
    assume "analysis_result url1 rnd = analysis_result url1 rnd'"
    then have "rnd 0 = rnd' 0" "rnd 1 = rnd' 1" "rnd 2 = rnd' 2" "rnd 3 = rnd' 3"
      by (simp_all add: analysis_result_def)
    moreover have "k = 0 \<or> k = 1 \<or> k = 2 \<or> k = 3" if "k < 4" for k :: nat
      using that by arith
    ultimately show "\<forall>k<4. rnd k = rnd' k" by auto
  next
    assume "\<forall>k<4. rnd k = rnd' k"
    then show "analysis_result url1 rnd = analysis_result url1 rnd'"
      by (simp add: analysis_result_def)
  qed
  have "generateMockAnalysis video1 (\<lambda>k. 0) \<noteq> generateMockAnalysis video1 (\<lambda>k. 1 / 2)"
    by (simp add: generateMockAnalysis_def)
  then have ex: "\<exists>r r'. generateMockAnalysis video1 r \<noteq> generateMockAnalysis video1 r'"
    by blast
  have mock: "generateMockAnalysis video1 rnd = generateMockAnalysis video2 rnd"
    by (simp add: generateMockAnalysis_def)
  have res: "analysis_result url1 rnd = analysis_result url2 rnd"
    by (simp add: analysis_result_def)
  show ?thesis
    using assms inj ex mock res
    by (simp add: run_job_no_faults redis_get_def)
qed

theorem scores_depend_on_draws_only_witness:
  "a_result (db (run_job (0, ''https://youtu.be/a'') 0 (\<lambda>k. 1 / 4) no_job_faults
        \<lparr>db = [new_analysis 0 ''https://youtu.be/a'' None], redis = Map.empty, timers = []\<rparr>) ! 0)
     = a_result (db (run_job (1, ''https://youtu.be/b'') 7 (\<lambda>k. 1 / 4) no_job_faults
        \<lparr>db = [new_analysis 0 ''https://youtu.be/a'' None, new_analysis 1 ''https://youtu.be/b'' None],
           redis = Map.empty, timers = []\<rparr>) ! 1)
   \<and> a_result (db (run_job (0, ''https://youtu.be/a'') 0 (\<lambda>k. 1 / 4) no_job_faults
        \<lparr>db = [new_analysis 0 ''https://youtu.be/a'' None], redis = Map.empty, timers = []\<rparr>) ! 0)
     = Some \<lparr>credibility = 25, bias = 25, factuality = 25, overall = 25\<rparr>"
proof -
  let ?s1 = "\<lparr>db = [new_analysis 0 ''https://youtu.be/a'' None], redis = Map.empty, timers = []\<rparr>"
  let ?s2 = "\<lparr>db = [new_analysis 0 ''https://youtu.be/a'' None, new_analysis 1 ''https://youtu.be/b'' None],
           redis = Map.empty, timers = []\<rparr>"
  have h1: "0 < length (db ?s1)" by simp
  have h2: "1 < length (db ?s2)" by simp
  note th = scores_depend_on_draws_only [OF h1 h2, of "''https://youtu.be/a''" 0 "\<lambda>k. 1 / 4" "''https://youtu.be/b''" 7 "()" "()" "\<lambda>k. 1 / 4"]
  have a: "analysis_result ''https://youtu.be/a'' (\<lambda>k. 1 / 4) = \<lparr>credibility = 25, bias = 25, factuality = 25, overall = 25\<rparr>"
    by (simp add: analysis_result_def)
  from th a show ?thesis by metis
qed

subsection \<open>Requests for the same video\<close>

text \<open>
  C1 (as amended). The route does not coalesce. A valid request that finds no fresh cache
  entry creates a Pending session of its own, under an id no earlier session has: two
  requests for the same video, with no cache entry at either instant, are accepted under
  two distinct ids, and both sessions are then in flight together, next to whatever
  sessions for that video were in flight before.
\<close>

theorem requests_are_not_coalesced:
  assumes "errors req = []"
    and "redis_get now (redis st) (cacheKey (req_videoUrl req)) = None"
    and "redis_get now' (redis st) (cacheKey (req_videoUrl req)) = None"
  shows "fst (post_analyze req now no_req_faults st) = Accepted (length (db st))
       \<and> fst (post_analyze req now' no_req_faults (snd (post_analyze req now no_req_faults st)))
           = Accepted (Suc (length (db st)))
       \<and> in_flight (snd (post_analyze req now' no_req_faults
                            (snd (post_analyze req now no_req_faults st)))) (req_videoUrl req)
           = in_flight st (req_videoUrl req)
             @ [new_analysis (length (db st)) (req_videoUrl req) (req_userId req),
                new_analysis (Suc (length (db st))) (req_videoUrl req) (req_userId req)]"
proof -
  let ?a = "new_analysis (length (db st)) (req_videoUrl req) (req_userId req)"
  let ?st1 = "st\<lparr>db := db st @ [?a], timers := timers st @ [(length (db st), req_videoUrl req)]\<rparr>"
  have first: "post_analyze req now no_req_faults st = (Accepted (length (db st)), ?st1)"
    using assms(1,2) by (intro post_analyze_miss) (simp_all add: no_req_faults_def)
  have miss: "redis_get now' (redis ?st1) (cacheKey (req_videoUrl req)) = None"
    using assms(3) by simp
  have second: "post_analyze req now' no_req_faults ?st1 =
      (Accepted (length (db ?st1)),
       ?st1\<lparr>db := db ?st1 @ [new_analysis (length (db ?st1)) (req_videoUrl req) (req_userId req)],
             timers := timers ?st1 @ [(length (db ?st1), req_videoUrl req)]\<rparr>)"
    using assms(1) miss by (intro post_analyze_miss) (simp_all add: no_req_faults_def)
  show ?thesis
    by (simp only: first second fst_conv snd_conv)
       (simp add: in_flight_def new_analysis_def non_terminal_def)
qed

theorem requests_are_not_coalesced_witness:
  "fst (post_analyze (watch_request ''https://youtu.be/a'') 5 no_req_faults empty_server) = Accepted 0
   \<and> fst (post_analyze (watch_request ''https://youtu.be/a'') 6 no_req_faults
            (snd (post_analyze (watch_request ''https://youtu.be/a'') 5 no_req_faults empty_server)))
       = Accepted 1"
proof -
  have e: "errors (watch_request ''https://youtu.be/a'') = []"
    by (simp add: watch_request_def)
  have m: "redis_get t (redis empty_server) (cacheKey (req_videoUrl (watch_request ''https://youtu.be/a''))) = None"
    for t by (simp add: redis_get_def empty_server_def)
  from requests_are_not_coalesced [OF e m m, of 5 6] show ?thesis
    by (simp add: empty_server_def)
qed

text \<open>
  The claim as stated fails: two requests for one video at the same instant, on a server
  with an empty table and an empty cache, are accepted as sessions 0 and 1, and the video
  then has two sessions in flight.
\<close>

theorem coalescing_counterexample:
  "fst (post_analyze (watch_request ''https://youtu.be/a'') 0 no_req_faults empty_server) = Accepted 0
   \<and> fst (post_analyze (watch_request ''https://youtu.be/a'') 0 no_req_faults
            (snd (post_analyze (watch_request ''https://youtu.be/a'') 0 no_req_faults empty_server)))
       = Accepted 1
   \<and> length (in_flight
        (snd (post_analyze (watch_request ''https://youtu.be/a'') 0 no_req_faults
            (snd (post_analyze (watch_request ''https://youtu.be/a'') 0 no_req_faults empty_server))))
        ''https://youtu.be/a'') = 2"
  by (simp add: post_analyze_def watch_request_def no_req_faults_def empty_server_def
      redis_get_def new_analysis_def in_flight_def non_terminal_def Let_def)

subsection \<open>A request served from the cache\<close>

text \<open>
  C3 (as amended). A valid request for a video whose cache entry has not expired is
  answered at once with the cached analysis id and result, status completed and the cached
  flag set. The server state is left as it was: no row is created, no background job is
  scheduled (so nothing is scored and no progress is written), and the cache is not
  touched. No event is emitted: the Socket.IO server is as before, so no socket is sent
  anything, and the response is the only report of the completed, cached analysis. The
  extension does the same with its own cache: an entry younger than 24 hours is returned
  as it is, the world outside is left as it was (no analysis request is made, nothing is
  saved), no notification is shown, and the cache is not touched.
\<close>

theorem cache_hit_returns_completed:
  assumes "errors req = []" and "get_fault flt = None"
    and "redis st (cacheKey (req_videoUrl req)) = Some (c, expires_at)"
    and "now < expires_at"
    and "analysisCache videoId = Some \<lparr>result = r, timestamp = t0\<rparr>"
    and "now' - t0 < 24 * 60 * 60 * 1000"
  shows "post_analyze req now flt st = (CachedResult (c_analysisId c) (c_result c), st)
       \<and> resp_status (fst (post_analyze req now flt st)) = Some Completed
       \<and> resp_cached (fst (post_analyze req now flt st))
       \<and> db (snd (post_analyze req now flt st)) = db st
       \<and> timers (snd (post_analyze req now flt st)) = timers st
       \<and> analyze_route req now flt (st, io) = (CachedResult (c_analysisId c) (c_result c), st, io)
       \<and> analyzeVideo ext now' now'' videoId videoData analysisCache w
           = \<lparr>returned = Inr r, cache_after = analysisCache, world_after = w, notifications = []\<rparr>"
  using assms
  by (simp add: post_analyze_def redis_get_def analyze_route_def analyzeVideo_def
      cached_analysis_def)

theorem cache_hit_returns_completed_witness:
  "analyze_route (watch_request ''https://youtu.be/a'') 100 no_req_faults
       (cached_server, Some listening_everywhere)
     = (CachedResult 3 \<lparr>credibility = 10, bias = 20, factuality = 30, overall = 40\<rparr>,
        cached_server, Some listening_everywhere)
   \<and> analyzeVideo counting_extension 5000 5001 ''abc'' ()
         [''abc'' \<mapsto> \<lparr>result = 64, timestamp = 1000\<rparr>] 0
       = \<lparr>returned = Inr 64, cache_after = [''abc'' \<mapsto> \<lparr>result = 64, timestamp = 1000\<rparr>],
          world_after = 0, notifications = []\<rparr>"
proof -
  let ?c = "\<lparr>c_analysisId = 3, c_result = \<lparr>credibility = 10, bias = 20, factuality = 30, overall = 40\<rparr>\<rparr>"
  let ?cache = "[''abc'' \<mapsto> \<lparr>result = (64::nat), timestamp = 1000\<rparr>]"
  have e: "errors (watch_request ''https://youtu.be/a'') = []"
    by (simp add: watch_request_def)
  have g: "get_fault no_req_faults = None"
    by (simp add: no_req_faults_def)
  have h: "redis cached_server (cacheKey (req_videoUrl (watch_request ''https://youtu.be/a'')))
             = Some (?c, 3600)"
    by (simp add: watch_request_def cached_server_def)
  have t: "(100::int) < 3600" by simp
  have k: "?cache ''abc'' = Some \<lparr>result = 64, timestamp = 1000\<rparr>" by simp
  have y: "(5000::int) - 1000 < 24 * 60 * 60 * 1000" by simp
  note th = cache_hit_returns_completed
    [where req = "watch_request ''https://youtu.be/a''" and flt = no_req_faults
       and st = cached_server and c = ?c and expires_at = 3600 and now = 100
       and analysisCache = ?cache and videoId = "''abc''" and r = 64 and ?t0.0 = 1000
       and now' = 5000 and io = "Some listening_everywhere" and ext = counting_extension
       and now'' = 5001 and videoData = "()" and w = 0]
  from th [OF e g h t k y] show ?thesis by simp
qed

text \<open>
  The claim as stated fails on its last clause. Socket 7 has joined every room, so it is
  sent every event the server emits; after a request served from the cache it has still
  been sent nothing, no completed (cached) event either. The extension, asked for a video
  it has cached, shows no notification.
\<close>

theorem cached_event_counterexample:
  "analyze_route (watch_request ''https://youtu.be/a'') 100 no_req_faults
       (cached_server, Some listening_everywhere)
     = (CachedResult 3 \<lparr>credibility = 10, bias = 20, factuality = 30, overall = 40\<rparr>,
        cached_server, Some listening_everywhere)
   \<and> 7 \<in> rooms listening_everywhere (room ''3'')
   \<and> delivered listening_everywhere 7 = []
   \<and> notifications (analyzeVideo counting_extension 5000 5001 ''abc'' ()
         [''abc'' \<mapsto> \<lparr>result = 64, timestamp = 1000\<rparr>] 0) = []"
  by (simp add: analyze_route_def post_analyze_def watch_request_def no_req_faults_def
      cached_server_def redis_get_def listening_everywhere_def analyzeVideo_def
      cached_analysis_def)

subsection \<open>The overall score\<close>

lemma round2_bounds:
  assumes "0 \<le> x" and "x \<le> 100"
  shows "0 \<le> round2 x \<and> round2 x \<le> 100"
proof -
  have "round (0::real) \<le> round (x * 100)"
    using assms(1) by (intro round_mono) simp
  then have lo: "0 \<le> round (x * 100)" by simp
  have "round (x * 100) \<le> round (10000::real)"
    using assms(2) by (intro round_mono) simp
  then have hi: "round (x * 100) \<le> 10000" by simp
  from lo hi show ?thesis
    by (simp add: round2_def)
qed

text \<open>
  C2 (as amended). The Python service combines the three stage scores with the fixed
  weights 0.2, 0.4 and 0.4, the bias score inverted (100 minus it) and a score missing
  from a stage's result replaced by 50; nothing is re-normalised. The sum is rounded to
  two decimals. When every score present lies in [0, 100], so does the overall score. In
  the Node job the overall score is a fourth random draw times 100, in [0, 100) for a
  draw in [0, 1).
\<close>

theorem overall_score_fixed_weights:
  assumes "\<forall>v. sentiment_result ''sentiment_score'' = Some v \<longrightarrow> 0 \<le> v \<and> v \<le> 100"
    and "\<forall>v. bias_result ''bias_score'' = Some v \<longrightarrow> 0 \<le> v \<and> v \<le> 100"
    and "\<forall>v. credibility_result ''credibility_score'' = Some v \<longrightarrow> 0 \<le> v \<and> v \<le> 100"
    and "0 \<le> rnd 3 \<and> rnd 3 < 1"
  shows "calculate_overall_score sentiment_result bias_result credibility_result
           = round2 (dict_get sentiment_result ''sentiment_score'' 50 * 0.2
                     + (100 - dict_get bias_result ''bias_score'' 50) * 0.4
                     + dict_get credibility_result ''credibility_score'' 50 * 0.4)
       \<and> 0 \<le> calculate_overall_score sentiment_result bias_result credibility_result
       \<and> calculate_overall_score sentiment_result bias_result credibility_result \<le> 100
       \<and> overall (analysis_result url rnd) = rnd 3 * 100
       \<and> 0 \<le> overall (analysis_result url rnd) \<and> overall (analysis_result url rnd) < 100"
proof -
  define s where "s = dict_get sentiment_result ''sentiment_score'' 50"
  define b where "b = dict_get bias_result ''bias_score'' 50"
  define c where "c = dict_get credibility_result ''credibility_score'' 50"
  have s: "0 \<le> s \<and> s \<le> 100"
    using assms(1) by (auto simp: s_def dict_get_def split: option.splits)
  have b: "0 \<le> b \<and> b \<le> 100"
    using assms(2) by (auto simp: b_def dict_get_def split: option.splits)
  have c: "0 \<le> c \<and> c \<le> 100"
    using assms(3) by (auto simp: c_def dict_get_def split: option.splits)
  have eq: "calculate_overall_score sentiment_result bias_result credibility_result
              = round2 (s * 0.2 + (100 - b) * 0.4 + c * 0.4)"
    by (simp only: calculate_overall_score_def Let_def s_def b_def c_def)
  have "0 \<le> s * 0.2 + (100 - b) * 0.4 + c * 0.4" "s * 0.2 + (100 - b) * 0.4 + c * 0.4 \<le> 100"
    using s b c by (simp_all add: field_simps)
  then have rng: "0 \<le> round2 (s * 0.2 + (100 - b) * 0.4 + c * 0.4)
                \<and> round2 (s * 0.2 + (100 - b) * 0.4 + c * 0.4) \<le> 100"
    by (rule round2_bounds)
  have node: "overall (analysis_result url rnd) = rnd 3 * 100"
    by (simp add: analysis_result_def)
  show ?thesis
    using eq rng node assms(4) unfolding s_def b_def c_def by simp
qed

theorem overall_score_fixed_weights_witness:
  "calculate_overall_score [''sentiment_score'' \<mapsto> 80] [''bias_score'' \<mapsto> 30] [''credibility_score'' \<mapsto> 60] = 68
   \<and> overall (analysis_result ''https://youtu.be/a'' (\<lambda>k. 1 / 2)) = 50"
proof -
  have h1: "\<forall>v. [''sentiment_score'' \<mapsto> (80::real)] ''sentiment_score'' = Some v \<longrightarrow> 0 \<le> v \<and> v \<le> 100"
    by simp
  have h2: "\<forall>v. [''bias_score'' \<mapsto> (30::real)] ''bias_score'' = Some v \<longrightarrow> 0 \<le> v \<and> v \<le> 100"
    by simp
  have h3: "\<forall>v. [''credibility_score'' \<mapsto> (60::real)] ''credibility_score'' = Some v \<longrightarrow> 0 \<le> v \<and> v \<le> 100"
    by simp
  have h4: "(0::real) \<le> (\<lambda>k::nat. 1 / 2) 3 \<and> (\<lambda>k::nat. 1 / 2) 3 < (1::real)"
    by simp
  note th = overall_score_fixed_weights
    [of "[''sentiment_score'' \<mapsto> 80]" "[''bias_score'' \<mapsto> 30]" "[''credibility_score'' \<mapsto> 60]"
        "\<lambda>k. 1 / 2" "''https://youtu.be/a''"]
  from th [OF h1 h2 h3 h4] show ?thesis
    by (simp add: dict_get_def round2_def)
qed

text \<open>
  The claim as stated fails twice. With all three stages present and every stage score 0,
  the re-normalised weighted sum of the stage scores is 0 and the service returns 40
  (the inverted bias score). With the sentiment stage alone, at score 100, the sum
  re-normalised over that stage is 100 and the service returns 60 (the two absent
  scores count as 50 under their full weights).
\<close>

theorem overall_score_counterexample:
  "calculate_overall_score [''sentiment_score'' \<mapsto> 0] [''bias_score'' \<mapsto> 0] [''credibility_score'' \<mapsto> 0] = 40
   \<and> renormalized_score [(''sentiment'', 0), (''bias'', 0), (''credibility'', 0)] = 0
   \<and> calculate_overall_score [''sentiment_score'' \<mapsto> 100] Map.empty Map.empty = 60
   \<and> renormalized_score [(''sentiment'', 100)] = 100"
  by (simp add: calculate_overall_score_def dict_get_def round2_def renormalized_score_def)

subsection \<open>Progress of the realtime analysis\<close>

lemma analyze_video_realtime_events:
  "analyze_video_realtime svc v \<in>
     {([(''started'', 0), (''collecting_data'', 20), (''sentiment_analysis'', 40), (''bias_detection'', 60),
        (''credibility_analysis'', 80), (''completed'', 100)], None)}
   \<or> snd (analyze_video_realtime svc v) \<noteq> None
     \<and> fst (analyze_video_realtime svc v) \<in>
     {[(''started'', 0), (''collecting_data'', 20)],
      [(''started'', 0), (''collecting_data'', 20), (''sentiment_analysis'', 40)],
      [(''started'', 0), (''collecting_data'', 20), (''sentiment_analysis'', 40), (''bias_detection'', 60)],
      [(''started'', 0), (''collecting_data'', 20), (''sentiment_analysis'', 40), (''bias_detection'', 60),
       (''credibility_analysis'', 80)]}"
  by (simp add: analyze_video_realtime_def Let_def split: sum.splits)

lemma round_fifths: "round (100 * real k / 5) = int (20 * k)"
proof -
  have "100 * real k / 5 = of_int (int (20 * k))" by simp
  then show ?thesis by (simp only: round_of_int)
qed

text \<open>
  C5 (as amended). The realtime analysis takes no list of requested stages: it always runs
  the four stages collecting_data, sentiment_analysis, bias_detection and
  credibility_analysis. Whatever the services do, the progress values of the events it
  yields are strictly increasing, and the k-th event (counting from 0, the started event)
  carries round(100 * k / 5) = 20 k. When no service fails it yields started at 0, the
  four stage events at 20, 40, 60 and 80, and completed at 100.
\<close>

theorem progress_is_fixed_and_increasing:
  "sorted_wrt (<) (map snd (fst (analyze_video_realtime svc v)))
   \<and> (\<forall>k < length (fst (analyze_video_realtime svc v)).
         int (snd (fst (analyze_video_realtime svc v) ! k)) = round (100 * real k / 5))
   \<and> (snd (analyze_video_realtime svc v) = None \<longrightarrow>
         fst (analyze_video_realtime svc v) =
           [(''started'', 0), (''collecting_data'', 20), (''sentiment_analysis'', 40),
            (''bias_detection'', 60), (''credibility_analysis'', 80), (''completed'', 100)]
         \<and> map snd (stage_progress (fst (analyze_video_realtime svc v))) = [20, 40, 60, 80])"
proof -
  have nth: "\<forall>k < length evs. int (snd (evs ! k)) = round (100 * real k / 5)"
    if "evs = take n [(''started'', 0), (''collecting_data'', 20), (''sentiment_analysis'', 40),
            (''bias_detection'', 60), (''credibility_analysis'', 80), (''completed'', 100::nat)]"
    for evs :: "(string \<times> nat) list" and n
  proof (intro allI impI)
    fix k assume "k < length evs"
    then have k: "k < 6" and kn: "k < n" using that by simp_all
    then have "k = 0 \<or> k = 1 \<or> k = 2 \<or> k = 3 \<or> k = 4 \<or> k = 5" by arith
    then have sndk: "snd ([(''started'', 0), (''collecting_data'', 20), (''sentiment_analysis'', 40),
            (''bias_detection'', 60), (''credibility_analysis'', 80), (''completed'', 100::nat)] ! k) = 20 * k"
      by (auto simp: nth_Cons')
    have evk: "evs ! k = [(''started'', 0), (''collecting_data'', 20), (''sentiment_analysis'', 40),
            (''bias_detection'', 60), (''credibility_analysis'', 80), (''completed'', 100::nat)] ! k"
      using kn that by simp
    show "int (snd (evs ! k)) = round (100 * real k / 5)"
      by (simp only: evk sndk round_fifths)
  qed
  from analyze_video_realtime_events [of svc v] show ?thesis
  proof (elim disjE conjE)
    assume "analyze_video_realtime svc v \<in>
     {([(''started'', 0), (''collecting_data'', 20), (''sentiment_analysis'', 40), (''bias_detection'', 60),
        (''credibility_analysis'', 80), (''completed'', 100)], None)}"
    then have r: "analyze_video_realtime svc v =
       ([(''started'', 0), (''collecting_data'', 20), (''sentiment_analysis'', 40), (''bias_detection'', 60),
        (''credibility_analysis'', 80), (''completed'', 100)], None)" by simp
    have "fst (analyze_video_realtime svc v) = take 6 [(''started'', 0), (''collecting_data'', 20), (''sentiment_analysis'', 40),
            (''bias_detection'', 60), (''credibility_analysis'', 80), (''completed'', 100::nat)]"
      by (simp add: r)
    from nth [OF this] show ?thesis
      by (simp add: r stage_progress_def)
  next
    assume e: "snd (analyze_video_realtime svc v) \<noteq> None"
      and "fst (analyze_video_realtime svc v) \<in>
     {[(''started'', 0), (''collecting_data'', 20)],
      [(''started'', 0), (''collecting_data'', 20), (''sentiment_analysis'', 40)],
      [(''started'', 0), (''collecting_data'', 20), (''sentiment_analysis'', 40), (''bias_detection'', 60)],
      [(''started'', 0), (''collecting_data'', 20), (''sentiment_analysis'', 40), (''bias_detection'', 60),
       (''credibility_analysis'', 80)]}"
    then consider
        "fst (analyze_video_realtime svc v) = take 2 [(''started'', 0), (''collecting_data'', 20), (''sentiment_analysis'', 40),
            (''bias_detection'', 60), (''credibility_analysis'', 80), (''completed'', 100::nat)]"
      | "fst (analyze_video_realtime svc v) = take 3 [(''started'', 0), (''collecting_data'', 20), (''sentiment_analysis'', 40),
            (''bias_detection'', 60), (''credibility_analysis'', 80), (''completed'', 100::nat)]"
      | "fst (analyze_video_realtime svc v) = take 4 [(''started'', 0), (''collecting_data'', 20), (''sentiment_analysis'', 40),
            (''bias_detection'', 60), (''credibility_analysis'', 80), (''completed'', 100::nat)]"
      | "fst (analyze_video_realtime svc v) = take 5 [(''started'', 0), (''collecting_data'', 20), (''sentiment_analysis'', 40),
            (''bias_detection'', 60), (''credibility_analysis'', 80), (''completed'', 100::nat)]"
      by (auto simp: numeral_eq_Suc)
    then show ?thesis
    proof cases
      case 1
      from nth [OF 1] e 1 show ?thesis by (simp add: numeral_eq_Suc)
    next
      case 2
      from nth [OF 2] e 2 show ?thesis by (simp add: numeral_eq_Suc)
    next
      case 3
      from nth [OF 3] e 3 show ?thesis by (simp add: numeral_eq_Suc)
    next
      case 4
      from nth [OF 4] e 4 show ?thesis by (simp add: numeral_eq_Suc)
    qed
  qed
qed

theorem progress_is_fixed_and_increasing_witness:
  "snd (analyze_video_realtime working_services ''dQw4w9WgXcQ'') = None
   \<and> map snd (stage_progress (fst (analyze_video_realtime working_services ''dQw4w9WgXcQ''))) = [20, 40, 60, 80]
   \<and> 3 < length (fst (analyze_video_realtime working_services ''dQw4w9WgXcQ''))
   \<and> int (snd (fst (analyze_video_realtime working_services ''dQw4w9WgXcQ'') ! 3)) = round (100 * real 3 / 5)"
proof -
  have n: "snd (analyze_video_realtime working_services ''dQw4w9WgXcQ'') = None"
    by (simp add: analyze_video_realtime_def working_services_def Let_def)
  have l: "3 < length (fst (analyze_video_realtime working_services ''dQw4w9WgXcQ''))"
    by (simp add: analyze_video_realtime_def working_services_def Let_def)
  from progress_is_fixed_and_increasing [of working_services "''dQw4w9WgXcQ''"] n l
  show ?thesis by blast
qed

text \<open>
  The claim as stated fails: there is no request for the two stages sentiment and bias.
  On any video whose services all answer, the generator yields four stage events, the
  first at 20 (not at 50, and not at round(100 * 1 / 4) = 25), and six events in all.
\<close>

theorem stage_progress_counterexample:
  "map snd (stage_progress (fst (analyze_video_realtime working_services ''dQw4w9WgXcQ''))) = [20, 40, 60, 80]
   \<and> length (stage_progress (fst (analyze_video_realtime working_services ''dQw4w9WgXcQ''))) \<noteq> 2
   \<and> length (fst (analyze_video_realtime working_services ''dQw4w9WgXcQ'')) = 6"
  by (simp add: analyze_video_realtime_def working_services_def Let_def stage_progress_def dict_get_def)

subsection \<open>Cache round trip\<close>

lemma jsonable_round_trip: "jsonable v \<Longrightarrow> JSON_parse (JSON_stringify v) = v"
proof (induction v)
  case (JArr vs)
  then have "\<forall>v \<in> set vs. JSON_parse (JSON_stringify v) = v"
    by (auto simp: list_all_iff)
  then show ?case
    by (simp add: map_idI)
next
  case (JObj fs)
  have "map_prod id (JSON_parse \<circ> JSON_stringify) f = f" if "f \<in> set fs" for f
  proof (cases f)
    case (Pair k v)
    with that JObj.prems have "jsonable v"
      by (auto simp: list_all_iff)
    moreover have "v \<in> Basic_BNFs.snds f"
      using Pair by simp
    ultimately have "JSON_parse (JSON_stringify v) = v"
      using JObj.IH that by blast
    with Pair show ?thesis by simp
  qed
  then show ?case
    by (simp add: map_idI prod.map_comp)
qed simp_all

text \<open>
  C6 (as amended). With a positive lifetime ttl, \<open>set\<close> at instant t0 succeeds, and
  \<open>get\<close> returns \<open>JSON.parse(JSON.stringify(r))\<close> at t0 itself and at every instant
  before t0 + ttl, which is r itself for every r that JSON can represent; from t0 + ttl
  on it returns \<open>null\<close>, although the entry is still in the store (nothing sweeps it:
  expiry is decided by the read). A key that is absent gives \<open>null\<close>. The extension's
  cache keeps the result itself, with a fixed lifetime of 24 hours: a result stored by
  \<open>analyzeVideo\<close> is returned by the check while less than 24 hours have passed, and
  not afterwards.
\<close>

theorem cache_round_trip:
  assumes "0 < ttl" and "jsonable r"
  shows "RedisService_set None t0 store key r (Some ttl)
           = (True, store(key \<mapsto> (JSON_stringify r, t0 + ttl)))
       \<and> RedisService_get None t0 (snd (RedisService_set None t0 store key r (Some ttl))) key = r
       \<and> (t < t0 + ttl \<longrightarrow>
            RedisService_get None t (snd (RedisService_set None t0 store key r (Some ttl))) key = r)
       \<and> (t < t0 + ttl \<longrightarrow>
            RedisService_get None t (snd (RedisService_set None t0 store key r' (Some ttl))) key
              = JSON_parse (JSON_stringify r'))
       \<and> (t0 + ttl \<le> t \<longrightarrow>
            RedisService_get None t (snd (RedisService_set None t0 store key r (Some ttl))) key = JNull
            \<and> snd (RedisService_set None t0 store key r (Some ttl)) key
                = Some (JSON_stringify r, t0 + ttl))
       \<and> (store key = None \<longrightarrow> RedisService_get None t store key = JNull)
       \<and> cached_analysis t (analysisCache(videoId \<mapsto> \<lparr>result = x, timestamp = t0\<rparr>)) videoId
           = (if t - t0 < 86400000 then Some x else None)
       \<and> (analysisCache videoId = None \<longrightarrow> cached_analysis t analysisCache videoId = None)
       \<and> (cached_analysis now analysisCache videoId = None
            \<and> requestVideoAnalysis ext videoId videoData w = (Inr x, w') \<longrightarrow>
            returned (analyzeVideo ext now t0 videoId videoData analysisCache w) = Inr x
            \<and> cached_analysis t
                 (cache_after (analyzeVideo ext now t0 videoId videoData analysisCache w)) videoId
                = (if t - t0 < 86400000 then Some x else None))"
  using assms
  by (simp add: RedisService_set_def RedisService_get_def redis_setEx_def redis_get_def
      cached_analysis_def analyzeVideo_def jsonable_round_trip)

theorem cache_round_trip_witness:
  "RedisService_get None 100
      (snd (RedisService_set None 100 Map.empty ''analysis:abc'' (JObj [(''score'', JNum 72)]) (Some 3600)))
      ''analysis:abc'' = JObj [(''score'', JNum 72)]
   \<and> RedisService_get None 3699
      (snd (RedisService_set None 100 Map.empty ''analysis:abc'' (JObj [(''score'', JNum 72)]) (Some 3600)))
      ''analysis:abc'' = JObj [(''score'', JNum 72)]
   \<and> RedisService_get None 3700
      (snd (RedisService_set None 100 Map.empty ''analysis:abc'' (JObj [(''score'', JNum 72)]) (Some 3600)))
      ''analysis:abc'' = JNull
   \<and> RedisService_get None 3700 Map.empty ''analysis:abc'' = JNull
   \<and> cached_analysis 86400099
        (cache_after (analyzeVideo counting_extension 100 100 ''abc'' () Map.empty 0)) ''abc'' = Some 72
   \<and> cached_analysis 86400100
        (cache_after (analyzeVideo counting_extension 100 100 ''abc'' () Map.empty 0)) ''abc'' = None"
proof -
  have p: "(0::int) < 3600" by simp
  have j: "jsonable (JObj [(''score'', JNum 72)])" by simp
  note th = cache_round_trip
    [OF p j, where ?t0.0 = 100 and store = Map.empty and key = "''analysis:abc''"
       and analysisCache = "Map.empty :: string \<rightharpoonup> nat cache_entry" and videoId = "''abc''"
       and now = 100 and ext = counting_extension and videoData = "()" and w = 0 and w' = 1
       and x = 72 and r' = JNull]
  have m: "cached_analysis 100 (Map.empty :: string \<rightharpoonup> nat cache_entry) ''abc'' = None"
    by (simp add: cached_analysis_def)
  have q: "requestVideoAnalysis counting_extension ''abc'' () 0 = (Inr 72, 1)"
    by (simp add: counting_extension_def)
  from th [of 3699] th [of 3700] th [of 86400099] th [of 86400100] m q
  show ?thesis by simp
qed

text \<open>
  The claim as stated fails twice. With ttl = 0 the command is refused, \<open>set\<close> answers
  false and the store keeps the entry it had, so \<open>get\<close> returns the earlier result: not
  the one just put, and not \<open>null\<close>. And a result JSON cannot represent does not come
  back: \<open>{score: NaN}\<close>, put with a lifetime of an hour, is read as \<open>{score: null}\<close>.
\<close>

theorem cache_round_trip_counterexample:
  "RedisService_set None 0 [''analysis:abc'' \<mapsto> (TNum 1, 100)] ''analysis:abc'' (JNum 2) (Some 0)
     = (False, [''analysis:abc'' \<mapsto> (TNum 1, 100)])
   \<and> RedisService_get None 0
        (snd (RedisService_set None 0 [''analysis:abc'' \<mapsto> (TNum 1, 100)] ''analysis:abc'' (JNum 2) (Some 0)))
        ''analysis:abc'' = JNum 1
   \<and> RedisService_get None 0
        (snd (RedisService_set None 0 Map.empty ''analysis:abc'' (JObj [(''score'', JNaN)]) (Some 3600)))
        ''analysis:abc'' = JObj [(''score'', JNull)]"
  by (simp add: RedisService_set_def RedisService_get_def redis_setEx_def redis_get_def)

subsection \<open>A failing scorer\<close>

lemma job_try_error:
  assumes "job_try (i, url) now rnd flt st = Inl (m, st')"
  shows "redis st' = redis st \<and> length (db st') = length (db st)"
  using assms
  by (auto simp: job_try_def prisma_update_def redis_setEx_def Let_def
      split: option.splits sum.splits if_splits)

text \<open>
  C4 (as amended). A failing scorer invocation is not retried. In the WebSocket handler,
  when the analysis fails with message m the request ends there: the world is in the
  state that one invocation left, the client has received analysis_started and then one
  error message carrying m (no stage name), and no analysis_completed message. In the
  analyze job, the first step that fails marks the session failed with that error's
  message recorded, and the cache is left as it was.
\<close>

theorem failure_is_not_retried:
  assumes "truthy videoUrl \<or> truthy videoId"
    and "yt_getVideoData be (js_or videoUrl videoId) w = (Inr videoData, w1)"
    and "svc_analyzeVideo be videoData w1 = (Inl m, w2)"
    and "i < length (db st)"
    and "job_try (i, url) now rnd flt st = Inl (m', st')"
    and "failed_fault flt = None"
  shows "handleAnalysisRequest be videoUrl videoId w
           = ([AnalysisStarted videoUrl videoId, WsError m], w2)
       \<and> a_status (db (run_job (i, url) now rnd flt st) ! i) = Failed
       \<and> a_error (db (run_job (i, url) now rnd flt st) ! i) = Some m'
       \<and> redis (run_job (i, url) now rnd flt st) = redis st"
proof -
  have ws: "handleAnalysisRequest be videoUrl videoId w
              = ([AnalysisStarted videoUrl videoId, WsError m], w2)"
    using assms(1-3) by (auto simp: handleAnalysisRequest_def)
  from job_try_error [OF assms(5)] assms(4)
  have r: "redis st' = redis st" and l: "i < length (db st')" by simp_all
  have job: "run_job (i, url) now rnd flt st
               = st'\<lparr>db := (db st')[i := (db st' ! i)\<lparr>a_status := Failed, a_error := Some m'\<rparr>]\<rparr>"
    using assms(5,6) l by (simp add: run_job_def prisma_update_def)
  show ?thesis
    using ws r l by (simp add: job)
qed

theorem failure_is_not_retried_witness:
  "handleAnalysisRequest flaky_backend (Some ''https://youtu.be/a'') None 0
     = ([AnalysisStarted (Some ''https://youtu.be/a'') None, WsError ''scorer timed out''], 1)
   \<and> a_status (db (run_job (0, ''https://youtu.be/a'') 0 (\<lambda>k. 1 / 4)
         (no_job_faults\<lparr>completed_fault := Some ''database is down''\<rparr>)
         \<lparr>db = [new_analysis 0 ''https://youtu.be/a'' None], redis = Map.empty, timers = []\<rparr>) ! 0) = Failed
   \<and> a_error (db (run_job (0, ''https://youtu.be/a'') 0 (\<lambda>k. 1 / 4)
         (no_job_faults\<lparr>completed_fault := Some ''database is down''\<rparr>)
         \<lparr>db = [new_analysis 0 ''https://youtu.be/a'' None], redis = Map.empty, timers = []\<rparr>) ! 0)
       = Some ''database is down''"
proof -
  let ?st = "\<lparr>db = [new_analysis 0 ''https://youtu.be/a'' None], redis = Map.empty, timers = []\<rparr>"
  let ?flt = "no_job_faults\<lparr>completed_fault := Some ''database is down''\<rparr>"
  have a: "truthy (Some ''https://youtu.be/a'') \<or> truthy None"
    by (simp add: truthy_def)
  have b: "yt_getVideoData flaky_backend (js_or (Some ''https://youtu.be/a'') None) 0 = (Inr (), 0)"
    by (simp add: flaky_backend_def)
  have c: "svc_analyzeVideo flaky_backend () 0 = (Inl ''scorer timed out'', 1)"
    by (simp add: flaky_backend_def)
  have d: "0 < length (db ?st)" by simp
  have e: "job_try (0, ''https://youtu.be/a'') 0 (\<lambda>k. 1 / 4) ?flt ?st
             = Inl (''database is down'',
                    ?st\<lparr>db := [(new_analysis 0 ''https://youtu.be/a'' None)\<lparr>a_progress := 50, a_status := Processing\<rparr>]\<rparr>)"
    by (simp add: job_try_def no_job_faults_def prisma_update_def Let_def)
  have f: "failed_fault ?flt = None"
    by (simp add: no_job_faults_def)
  from failure_is_not_retried [OF a b c d e f] show ?thesis by simp
qed

text \<open>
  The claim as stated fails: with a scorer that times out on its first invocation and
  would answer 72 on the second, the handler reports the error after that one invocation
  (the world's attempt counter is 1) and sends no result.
\<close>

theorem retry_counterexample:
  "handleAnalysisRequest flaky_backend (Some ''https://youtu.be/a'') None 0
     = ([AnalysisStarted (Some ''https://youtu.be/a'') None, WsError ''scorer timed out''], 1)
   \<and> fst (svc_analyzeVideo flaky_backend () 1) = Inr 72"
  by (simp add: handleAnalysisRequest_def flaky_backend_def truthy_def js_or_def)
subsection \<open>A failing item of a batch\<close>











text \<open>
  A \<open>null\<close> item is another matter: the error it raises in the \<open>catch\<close> block leaves
  the loop, the entries made so far are dropped and the answer is the error handler's.
\<close>

lemma batch_null_item:
  "batch_post all_work (Some [Some (video_of ''v1''), None, Some (video_of ''v3'')]) ()
     = (Batch500 ''Cannot read properties of null'', ())"
  by (simp add: batch_post_def all_work_def batch_one_def video_of_def js_or_def js_str_def
      truthy_def)

text \<open>
  The Python batch service is different too: the same five videos, with the tasks
  finishing in submission order, end in the third item's exception and no result at all.
\<close>

lemma process_videos_third_fails:
  "process_videos (\<lambda>url. if url = ''v3'' then Inl ''Video unavailable'' else Inr (length url))
     [0, 1, 2, 3, 4] [''v1'', ''v2'', ''v3'', ''v4'', ''v5''] = Inl ''Video unavailable''"
  by (simp add: process_videos_def)

subsection \<open>Subscribers of a session's events\<close>

lemma emit_all_None: "emit_all evs None = None"
proof (induction evs)
  case Nil
  show ?case by simp
next
  case (Cons ev evs)
  then show ?case
    by (cases ev) (simp_all add: emitAnalysisProgress_def emitAnalysisComplete_def)
qed

lemma emit_Some:
  "emit ev (Some srv) = Some (io_to_emit (room (event_analysisId ev)) ev srv)"
  by (cases ev) (simp_all add: emitAnalysisProgress_def emitAnalysisComplete_def)

lemma emit_all_Some:
  "emit_all evs (Some srv) =
     Some (srv\<lparr>delivered := (\<lambda>socket. delivered srv socket
              @ filter (\<lambda>ev. socket \<in> rooms srv (room (event_analysisId ev))) evs)\<rparr>)"
proof (induction evs arbitrary: srv)
  case Nil
  show ?case by simp
next
  case (Cons ev evs)
  show ?case
    by (simp add: emit_Some Cons.IH io_to_emit_def fun_eq_iff)
qed

text \<open>
  C9 (as amended). Subscribing never looks at the session: it always puts the socket in
  the session's room and sends it nothing, also when the session's terminal event has
  been emitted before; a late subscriber is registered and receives no terminal event.
  A run of emissions leaves the rooms as they are and appends to what a socket has
  received exactly the events of the rooms it is in, in the order of emission; a socket
  that subscribes to a session before a run of that session's events receives all of
  them, in that order.
\<close>

theorem subscribers_receive_in_order:
  "socket \<in> rooms (subscribe_analysis socket analysisId srv) (room analysisId)
   \<and> delivered (subscribe_analysis socket analysisId srv) = delivered srv
   \<and> map_option rooms (emit_all evs (Some srv)) = Some (rooms srv)
   \<and> map_option (\<lambda>srv'. delivered srv' socket) (emit_all evs (Some srv))
       = Some (delivered srv socket
               @ filter (\<lambda>ev. socket \<in> rooms srv (room (event_analysisId ev))) evs)
   \<and> ((\<forall>ev \<in> set evs. event_analysisId ev = analysisId) \<longrightarrow>
        map_option (\<lambda>srv'. delivered srv' socket)
            (emit_all evs (Some (subscribe_analysis socket analysisId srv)))
          = Some (delivered srv socket @ evs))"
proof -
  have "filter (\<lambda>ev. socket \<in> rooms (subscribe_analysis socket analysisId srv)
                                     (room (event_analysisId ev))) evs = evs"
    if "\<forall>ev \<in> set evs. event_analysisId ev = analysisId"
    using that by (auto simp: subscribe_analysis_def intro!: filter_True)
  then show ?thesis
    by (simp add: emit_all_Some) (simp add: subscribe_analysis_def)
qed

theorem subscribers_receive_in_order_witness:
  "map_option (\<lambda>srv'. delivered srv' 7)
     (emit_all [AnalysisProgress ''a1'' 50 ''processing'' ''half way'', AnalysisComplete ''a1'' 72]
        (Some (subscribe_analysis 7 ''a1'' no_subscribers)))
   = Some [AnalysisProgress ''a1'' 50 ''processing'' ''half way'', AnalysisComplete ''a1'' 72]"
proof -
  have h: "\<forall>ev \<in> set [AnalysisProgress ''a1'' 50 ''processing'' ''half way'', AnalysisComplete ''a1'' (72::nat)].
             event_analysisId ev = ''a1''"
    by simp
  from subscribers_receive_in_order
    [of 7 "''a1''" no_subscribers
        "[AnalysisProgress ''a1'' 50 ''processing'' ''half way'', AnalysisComplete ''a1'' 72]"] h
  show ?thesis by (simp add: no_subscribers_def)
qed

text \<open>
  The claim as stated fails: the terminal event of session a1 is emitted while nobody is
  subscribed; socket 7 subscribes afterwards, is put in the room as a live subscriber,
  and has been sent nothing.
\<close>

theorem late_subscriber_counterexample:
  "emitAnalysisComplete ''a1'' 72 (Some no_subscribers) = Some no_subscribers
   \<and> delivered (subscribe_analysis 7 ''a1'' no_subscribers) 7 = []
   \<and> 7 \<in> rooms (subscribe_analysis 7 ''a1'' no_subscribers) (room ''a1'')"
  by (simp add: emitAnalysisComplete_def io_to_emit_def no_subscribers_def subscribe_analysis_def)

subsection \<open>Cancelling a session\<close>

lemma cancelled_is_final:
  assumes "manager_step\<^sup>*\<^sup>* sessions sessions'" and "sessions i = Some SCancelled"
  shows "sessions' i = Some SCancelled"
  using assms
proof (induction rule: rtranclp_induct)
  case base
  then show ?case by simp
next
  case (step y z)
  then have y: "y i = Some SCancelled" by simp
  from step.hyps(2) show ?case
  proof cases
    case (advance j s s')
    show ?thesis
    proof (cases "j = i")
      case True
      with advance y have "transition SCancelled s'" by simp
      then show ?thesis by cases
    next
      case False
      with advance y show ?thesis by simp
    qed
  next
    case (create j)
    with y have "j \<noteq> i" by auto
    with create y show ?thesis by simp
  qed
qed

text \<open>
  C7. Cancelling a Pending session returns true and leaves it Cancelled, and in every
  state the Session Manager can reach from there the session is still Cancelled, so it
  never becomes Running. Cancelling a session that is already Completed, Failed or
  Cancelled returns false and changes nothing.
\<close>

theorem cancel_pending_never_runs:
  "(sessions i = Some SPending \<longrightarrow>
      cancel i sessions = (Inr True, sessions(i \<mapsto> SCancelled))
      \<and> (\<forall>sessions'. manager_step\<^sup>*\<^sup>* (snd (cancel i sessions)) sessions' \<longrightarrow>
            sessions' i = Some SCancelled \<and> sessions' i \<noteq> Some SRunning))
   \<and> (sessions i = Some s \<and> terminal s \<longrightarrow> cancel i sessions = (Inr False, sessions))"
proof (intro conjI impI allI)
  assume p: "sessions i = Some SPending"
  then show c: "cancel i sessions = (Inr True, sessions(i \<mapsto> SCancelled))"
    by (simp add: cancel_def terminal_def)
  fix sessions'
  assume "manager_step\<^sup>*\<^sup>* (snd (cancel i sessions)) sessions'"
  then have "manager_step\<^sup>*\<^sup>* (sessions(i \<mapsto> SCancelled)) sessions'"
    by (simp add: c)
  from cancelled_is_final [OF this, of i]
  show "sessions' i = Some SCancelled" by simp
  then show "sessions' i \<noteq> Some SRunning" by simp
next
  assume "sessions i = Some s \<and> terminal s"
  then show "cancel i sessions = (Inr False, sessions)"
    by (simp add: cancel_def)
qed

theorem cancel_pending_never_runs_witness:
  "cancel 1 [1 \<mapsto> SPending] = (Inr True, [1 \<mapsto> SCancelled])
   \<and> cancel 2 [2 \<mapsto> SCompleted] = (Inr False, [2 \<mapsto> SCompleted])
   \<and> manager_step\<^sup>*\<^sup>* (snd (cancel 1 [1 \<mapsto> SPending])) [1 \<mapsto> SCancelled, 2 \<mapsto> SPending]
   \<and> [1 \<mapsto> SCancelled, 2 \<mapsto> SPending] (1::nat) = Some SCancelled"
proof -
  have p: "[1 \<mapsto> SPending] (1::nat) = Some SPending" by simp
  have t: "[2 \<mapsto> SCompleted] (2::nat) = Some SCompleted \<and> terminal SCompleted"
    by (simp add: terminal_def)
  note th = cancel_pending_never_runs [of "[1 \<mapsto> SPending]" 1 SCompleted]
  from th p have c: "cancel 1 [1 \<mapsto> SPending] = (Inr True, [1 \<mapsto> SCancelled])"
    by simp
  from th p have always: "manager_step\<^sup>*\<^sup>* (snd (cancel 1 [1 \<mapsto> SPending])) sessions'
                   \<Longrightarrow> sessions' 1 = Some SCancelled" for sessions'
    by blast
  from cancel_pending_never_runs [of "[2 \<mapsto> SCompleted]" 2 SCompleted] t
  have f: "cancel 2 [2 \<mapsto> SCompleted] = (Inr False, [2 \<mapsto> SCompleted])"
    by simp
  have "manager_step [1 \<mapsto> SCancelled] ([1 \<mapsto> SCancelled](2 \<mapsto> SPending))"
    by (rule manager_step.create) simp
  then have "manager_step\<^sup>*\<^sup>* [1 \<mapsto> SCancelled] [1 \<mapsto> SCancelled, 2 \<mapsto> SPending]"
    by blast
  then have r: "manager_step\<^sup>*\<^sup>* (snd (cancel 1 [1 \<mapsto> SPending])) [1 \<mapsto> SCancelled, 2 \<mapsto> SPending]"
    by (simp only: c snd_conv)
  from c f r always [OF r] show ?thesis by simp
qed

end
